theory Spec2Isabelle
  imports Complex_Main "HOL-Library.Word"
begin

section \<open>The GeoJSON geometry codec of \<^verbatim>\<open>geometry.go\<close>\<close>

text \<open>
  The development follows \<^verbatim>\<open>geometry.go\<close>: the values the BSON library hands to the
  codec, the \<^verbatim>\<open>Geometry\<close> struct, the projection \<^verbatim>\<open>toPureGeometry\<close> used for
  marshalling, and the family of decoders that starts at \<^verbatim>\<open>decodeGeometry\<close>.

  Conventions of the embedding.
  \<^item> A Go slice is a list, with one empty slice \<open>[]\<close>: the code of the package ranges
    over slices, appends to them and takes their length, and so cannot tell the nil slice
    from an allocated slice of length 0. The encoder of the library can, and writes the
    nil slice as null. In what is given to the encoder \<open>[]\<close> is the nil slice, the one
    held by \<^verbatim>\<open>Geometry{}\<close>, \<^verbatim>\<open>NewMultiPoint()\<close> and \<^verbatim>\<open>NewPoint(nil)\<close>; an allocated slice
    of length 0 has no value of its own there.
  \<^item> A \<^verbatim>\<open>float64\<close> is a \<open>real\<close>, and the conversions \<^verbatim>\<open>float64(f)\<close> of the
    integer kinds are exact; rounding of integers beyond 53 bits and the special values
    of IEEE arithmetic are outside the model.
  \<^item> The Go type \<^verbatim>\<open>int\<close> is taken at 64 bits.
  \<^item> \<^verbatim>\<open>[]*Geometry\<close> is a list of child values: a collection is a tree.
  \<^item> A Go \<^verbatim>\<open>error\<close> built with a message is a constructor of \<open>error\<close>; the value
    printed by \<^verbatim>\<open>%v\<close> is its argument.
\<close>

subsection \<open>Values of type \<^verbatim>\<open>interface{}\<close>\<close>

text \<open>
  What \<^verbatim>\<open>bson.Unmarshal\<close> stores in a \<^verbatim>\<open>map[string]interface{}\<close>: \<open>VNil\<close> is the nil
  interface (a BSON null, and also what indexing a map at a missing key yields),
  \<open>VArray\<close> is \<^verbatim>\<open>primitive.A\<close>, \<open>VMap\<close> is a nested \<^verbatim>\<open>map[string]interface{}\<close> (read
  only through key lookup), and \<open>VOther\<close> stands for every other BSON value (object
  ids, dates, binaries, ...), none of which the codec inspects.
\<close>

datatype bson =
    VNil
  | VBool bool
  | VFloat64 real
  | VInt "64 word"
  | VInt32 "32 word"
  | VInt64 "64 word"
  | VString string
  | VArray "bson list"
  | VMap "(string \<times> bson) list"
  | VOther nat

text \<open>
  The errors of the decoders, one constructor per message:
  \<^item> \<open>TypeNotDefined\<close>: \<^verbatim>\<open>type property not defined\<close>
  \<^item> \<open>TypeNotString\<close>: \<^verbatim>\<open>type property not string\<close>
  \<^item> \<open>NotValidPosition v\<close>: \<^verbatim>\<open>not a valid position, got v\<close>
  \<^item> \<open>NotValidCoordinate v\<close>: \<^verbatim>\<open>not a valid coordinate, got v\<close>
  \<^item> \<open>NotValidPositionSet v\<close>: \<^verbatim>\<open>not a valid set of positions, got v\<close>
  \<^item> \<open>NotValidPath v\<close>: \<^verbatim>\<open>not a valid path, got v\<close>
  \<^item> \<open>NotValidPolygon v\<close>: \<^verbatim>\<open>not a valid polygon, got v\<close>
  \<^item> \<open>NotValidGeometries v\<close>: \<^verbatim>\<open>not a valid set of geometries, got v\<close>
  \<^item> \<open>AdapterError\<close>: an error of \<^verbatim>\<open>bson.Unmarshal\<close> itself, such as \<^verbatim>\<open>EOF\<close>.
\<close>

datatype error =
    TypeNotDefined
  | TypeNotString
  | NotValidPosition bson
  | NotValidCoordinate bson
  | NotValidPositionSet bson
  | NotValidPath bson
  | NotValidPolygon bson
  | NotValidGeometries bson
  | AdapterError

text \<open>The error kinds of the specification, and the kind of each error of the code.\<close>

datatype error_kind =
    MissingType
  | InvalidType
  | InvalidPosition
  | InvalidPositionSequence
  | InvalidPathSequence
  | InvalidPolygonSequence
  | InvalidGeometrySequence
  | Adapter

fun kind :: "error \<Rightarrow> error_kind" where
  "kind TypeNotDefined = MissingType"
| "kind TypeNotString = InvalidType"
| "kind (NotValidPosition v) = InvalidPosition"
| "kind (NotValidCoordinate v) = InvalidPosition"
| "kind (NotValidPositionSet v) = InvalidPositionSequence"
| "kind (NotValidPath v) = InvalidPathSequence"
| "kind (NotValidPolygon v) = InvalidPolygonSequence"
| "kind (NotValidGeometries v) = InvalidGeometrySequence"
| "kind AdapterError = Adapter"

subsection \<open>The data model\<close>

type_synonym GeometryType = string

definition GeometryPoint :: GeometryType where
  "GeometryPoint = ''Point''"

definition GeometryMultiPoint :: GeometryType where
  "GeometryMultiPoint = ''MultiPoint''"

definition GeometryLineString :: GeometryType where
  "GeometryLineString = ''LineString''"

definition GeometryMultiLineString :: GeometryType where
  "GeometryMultiLineString = ''MultiLineString''"

definition GeometryPolygon :: GeometryType where
  "GeometryPolygon = ''Polygon''"

definition GeometryMultiPolygon :: GeometryType where
  "GeometryMultiPolygon = ''MultiPolygon''"

definition GeometryCollection :: GeometryType where
  "GeometryCollection = ''GeometryCollection''"

lemmas GeometryType_defs =
  GeometryPoint_def GeometryMultiPoint_def GeometryLineString_def
  GeometryMultiLineString_def GeometryPolygon_def GeometryMultiPolygon_def
  GeometryCollection_def

type_synonym Point = "real list"

text \<open>
  The struct \<^verbatim>\<open>Geometry\<close>, with its fields in the order of the source. It refers to
  itself through \<^verbatim>\<open>Geometries\<close>, so it is a datatype with one constructor and a
  selector per field.
\<close>

datatype Geometry = Geometry
  (Type: GeometryType)
  (Point: Point)
  (LineString: "Point list")
  (Polygon: "Point list list")
  (MultiPoint: "Point list")
  (MultiLineString: "Point list list")
  (MultiPolygon: "Point list list list")
  (Geometries: "Geometry list")

text \<open>The zero value \<^verbatim>\<open>Geometry{}\<close>.\<close>

definition zero_Geometry :: Geometry where
  "zero_Geometry = Geometry [] [] [] [] [] [] [] []"

text \<open>Assignments to one field.\<close>

fun set_Type :: "GeometryType \<Rightarrow> Geometry \<Rightarrow> Geometry" where
  "set_Type v (Geometry t p ls pg mp mls mpg gs) = Geometry v p ls pg mp mls mpg gs"

fun set_Point :: "Point \<Rightarrow> Geometry \<Rightarrow> Geometry" where
  "set_Point v (Geometry t p ls pg mp mls mpg gs) = Geometry t v ls pg mp mls mpg gs"

fun set_LineString :: "Point list \<Rightarrow> Geometry \<Rightarrow> Geometry" where
  "set_LineString v (Geometry t p ls pg mp mls mpg gs) = Geometry t p v pg mp mls mpg gs"

fun set_Polygon :: "Point list list \<Rightarrow> Geometry \<Rightarrow> Geometry" where
  "set_Polygon v (Geometry t p ls pg mp mls mpg gs) = Geometry t p ls v mp mls mpg gs"

fun set_MultiPoint :: "Point list \<Rightarrow> Geometry \<Rightarrow> Geometry" where
  "set_MultiPoint v (Geometry t p ls pg mp mls mpg gs) = Geometry t p ls pg v mls mpg gs"

fun set_MultiLineString :: "Point list list \<Rightarrow> Geometry \<Rightarrow> Geometry" where
  "set_MultiLineString v (Geometry t p ls pg mp mls mpg gs) = Geometry t p ls pg mp v mpg gs"

fun set_MultiPolygon :: "Point list list list \<Rightarrow> Geometry \<Rightarrow> Geometry" where
  "set_MultiPolygon v (Geometry t p ls pg mp mls mpg gs) = Geometry t p ls pg mp mls v gs"

fun set_Geometries :: "Geometry list \<Rightarrow> Geometry \<Rightarrow> Geometry" where
  "set_Geometries v (Geometry t p ls pg mp mls mpg gs) = Geometry t p ls pg mp mls mpg v"

text \<open>The constructors of the package.\<close>

definition NewPoint :: "Point \<Rightarrow> Geometry" where
  "NewPoint coordinate = set_Point coordinate (set_Type GeometryPoint zero_Geometry)"

definition NewMultiPoint :: "Point list \<Rightarrow> Geometry" where
  "NewMultiPoint coordinates =
     set_MultiPoint coordinates (set_Type GeometryMultiPoint zero_Geometry)"

definition NewLineString :: "Point list \<Rightarrow> Geometry" where
  "NewLineString coordinates =
     set_LineString coordinates (set_Type GeometryLineString zero_Geometry)"


definition NewPolygon :: "Point list list \<Rightarrow> Geometry" where
  "NewPolygon polygon = set_Polygon polygon (set_Type GeometryPolygon zero_Geometry)"

definition NewMultiPolygon :: "Point list list list \<Rightarrow> Geometry" where
  "NewMultiPolygon polygons =
     set_MultiPolygon polygons (set_Type GeometryMultiPolygon zero_Geometry)"

definition NewGeometryCollection :: "Geometry list \<Rightarrow> Geometry" where
  "NewGeometryCollection geometries =
     set_Geometries geometries (set_Type GeometryCollection zero_Geometry)"

subsection \<open>Decoding coordinates\<close>

text \<open>The conversion \<^verbatim>\<open>float64(f)\<close> of a signed machine integer.\<close>

definition float64 :: "'a::len word \<Rightarrow> real" where
  "float64 f = real_of_int (sint f)"

text \<open>
  The loop of \<^verbatim>\<open>decodePosition\<close> over \<^verbatim>\<open>coords\<close>, with \<^verbatim>\<open>result\<close> as it stands:
  the type switch accepts \<^verbatim>\<open>float64\<close>, \<^verbatim>\<open>int\<close>, \<^verbatim>\<open>int32\<close> and \<^verbatim>\<open>int64\<close>, and the
  default branch returns the error at once.
\<close>

fun decodePosition_loop :: "bson list \<Rightarrow> Point \<Rightarrow> error + Point" where
  "decodePosition_loop [] result = Inr result"
| "decodePosition_loop (coord # coords) result =
     (case coord of
        VFloat64 f \<Rightarrow> decodePosition_loop coords (result @ [f])
      | VInt f \<Rightarrow> decodePosition_loop coords (result @ [float64 f])
      | VInt32 f \<Rightarrow> decodePosition_loop coords (result @ [float64 f])
      | VInt64 f \<Rightarrow> decodePosition_loop coords (result @ [float64 f])
      | _ \<Rightarrow> Inl (NotValidCoordinate coord))"

definition decodePosition :: "bson \<Rightarrow> error + Point" where
  "decodePosition data =
     (case data of
        VArray coords \<Rightarrow> decodePosition_loop coords []
      | _ \<Rightarrow> Inl (NotValidPosition data))"

fun decodePositionSet_loop :: "bson list \<Rightarrow> Point list \<Rightarrow> error + Point list" where
  "decodePositionSet_loop [] result = Inr result"
| "decodePositionSet_loop (point # points) result =
     (case decodePosition point of
        Inr p \<Rightarrow> decodePositionSet_loop points (result @ [p])
      | Inl err \<Rightarrow> Inl err)"

definition decodePositionSet :: "bson \<Rightarrow> error + Point list" where
  "decodePositionSet data =
     (case data of
        VArray points \<Rightarrow> decodePositionSet_loop points []
      | _ \<Rightarrow> Inl (NotValidPositionSet data))"

fun decodePathSet_loop :: "bson list \<Rightarrow> Point list list \<Rightarrow> error + Point list list" where
  "decodePathSet_loop [] result = Inr result"
| "decodePathSet_loop (set' # sets) result =
     (case decodePositionSet set' of
        Inr s \<Rightarrow> decodePathSet_loop sets (result @ [s])
      | Inl err \<Rightarrow> Inl err)"

definition decodePathSet :: "bson \<Rightarrow> error + Point list list" where
  "decodePathSet data =
     (case data of
        VArray sets \<Rightarrow> decodePathSet_loop sets []
      | _ \<Rightarrow> Inl (NotValidPath data))"

fun decodePolygonSet_loop ::
  "bson list \<Rightarrow> Point list list list \<Rightarrow> error + Point list list list" where
  "decodePolygonSet_loop [] result = Inr result"
| "decodePolygonSet_loop (polygon # polygons) result =
     (case decodePathSet polygon of
        Inr p \<Rightarrow> decodePolygonSet_loop polygons (result @ [p])
      | Inl err \<Rightarrow> Inl err)"

definition decodePolygonSet :: "bson \<Rightarrow> error + Point list list list" where
  "decodePolygonSet data =
     (case data of
        VArray polygons \<Rightarrow> decodePolygonSet_loop polygons []
      | _ \<Rightarrow> Inl (NotValidPolygon data))"

subsection \<open>Decoding a geometry\<close>

text \<open>
  \<^verbatim>\<open>object[key]\<close> in a position that ignores the second result: a missing key yields
  the nil interface.
\<close>

definition index :: "(string \<times> bson) list \<Rightarrow> string \<Rightarrow> bson" where
  "index object key = (case map_of object key of None \<Rightarrow> VNil | Some v \<Rightarrow> v)"

text \<open>
  The assignment \<^verbatim>\<open>g.F, err = decode(...)\<close>: a failing decoder returns \<^verbatim>\<open>nil\<close> with
  its error, so the field is overwritten in both cases.
\<close>

definition assign ::
  "('a list \<Rightarrow> Geometry \<Rightarrow> Geometry) \<Rightarrow> Geometry \<Rightarrow> error + 'a list \<Rightarrow> Geometry \<times> error option"
  where
  "assign upd g r = (case r of Inl err \<Rightarrow> (upd [] g, Some err) | Inr v \<Rightarrow> (upd v g, None))"

lemma size_map_of:
  "map_of object key = Some v \<Longrightarrow> size v < Suc (size_list (size_prod (\<lambda>_. 0) size) object)"
  by (induction object) (auto split: if_splits)

lemma size_index: "size (index object key) < size (VMap object)"
  by (auto simp: index_def split: option.splits dest: size_map_of)

text \<open>
  \<^verbatim>\<open>decodeGeometry\<close> works on the receiver \<^verbatim>\<open>g\<close> in place: it returns the receiver
  as the call leaves it, with the error (\<open>None\<close> is \<^verbatim>\<open>nil\<close>). \<^verbatim>\<open>decodeGeometries\<close>
  starts every child from a fresh \<^verbatim>\<open>&Geometry{}\<close>. Its loop leaves with \<open>Inl\<close> at
  the \<^verbatim>\<open>return nil, err\<close> and with \<open>Inr\<close> of the children collected so far at the
  \<^verbatim>\<open>break\<close> or at the end of the range; the comparison of the lengths follows it.
\<close>

function decodeGeometry :: "Geometry \<Rightarrow> (string \<times> bson) list \<Rightarrow> Geometry \<times> error option"
  and decodeGeometries :: "bson \<Rightarrow> error + Geometry list"
  and decodeGeometries_loop :: "bson list \<Rightarrow> Geometry list \<Rightarrow> error + Geometry list"
  where
  "decodeGeometry g object =
     (case map_of object ''type'' of
        None \<Rightarrow> (g, Some TypeNotDefined)
      | Some t \<Rightarrow>
          (case t of
             VString s \<Rightarrow>
               (let g = set_Type s g in
                if Type g = GeometryPoint then
                  assign set_Point g (decodePosition (index object ''coordinates''))
                else if Type g = GeometryMultiPoint then
                  assign set_MultiPoint g (decodePositionSet (index object ''coordinates''))
                else if Type g = GeometryLineString then
                  assign set_LineString g (decodePositionSet (index object ''coordinates''))
                else if Type g = GeometryMultiLineString then
                  assign set_MultiLineString g (decodePathSet (index object ''coordinates''))
                else if Type g = GeometryPolygon then
                  assign set_Polygon g (decodePathSet (index object ''coordinates''))
                else if Type g = GeometryMultiPolygon then
                  assign set_MultiPolygon g (decodePolygonSet (index object ''coordinates''))
                else if Type g = GeometryCollection then
                  assign set_Geometries g (decodeGeometries (index object ''geometries''))
                else (g, None))
           | _ \<Rightarrow> (g, Some TypeNotString)))"
| "decodeGeometries data =
     (case data of
        VArray vs \<Rightarrow>
          (case decodeGeometries_loop vs [] of
             Inl err \<Rightarrow> Inl err
           | Inr geometries \<Rightarrow>
               if length geometries = length vs then Inr geometries
               else Inl (NotValidGeometries data))
      | _ \<Rightarrow> Inl (NotValidGeometries data))"
| "decodeGeometries_loop [] geometries = Inr geometries"
| "decodeGeometries_loop (v # vs) geometries =
     (case v of
        VMap vmap \<Rightarrow>
          (case decodeGeometry zero_Geometry vmap of
             (g, Some err) \<Rightarrow> Inl err
           | (g, None) \<Rightarrow> decodeGeometries_loop vs (geometries @ [g]))
      | _ \<Rightarrow> Inr geometries)"
  by pat_completeness auto
termination
  by (relation "measure (\<lambda>x. case x of
          Inl (g, object) \<Rightarrow> 2 * size (VMap object)
        | Inr (Inl data) \<Rightarrow> 2 * size data + 1
        | Inr (Inr (vs, geometries)) \<Rightarrow> 2 * size (VArray vs))")
     (use size_index in \<open>auto simp: less_Suc_eq_le dest: size_map_of\<close>)

subsection \<open>The entry points\<close>

text \<open>
  \<^verbatim>\<open>UnmarshalBSON\<close> hands the bytes to \<^verbatim>\<open>bson.Unmarshal\<close>, which is not part of the
  package: it is the parameter \<open>unmarshal\<close>, from the bytes to the decoded
  \<^verbatim>\<open>map[string]interface{}\<close> or an error. An empty input leaves the receiver alone.
\<close>

definition UnmarshalBSON ::
  "(8 word list \<Rightarrow> error + (string \<times> bson) list) \<Rightarrow> Geometry \<Rightarrow> 8 word list \<Rightarrow>
     Geometry \<times> error option" where
  "UnmarshalBSON unmarshal g data =
     (if length data = 0 then (g, None)
      else case unmarshal data of
             Inl err \<Rightarrow> (g, Some err)
           | Inr object \<Rightarrow> decodeGeometry g object)"

text \<open>
  \<^verbatim>\<open>UnmarshalGeometry\<close> allocates a fresh \<^verbatim>\<open>&Geometry{}\<close> and hands it to
  \<^verbatim>\<open>bson.Unmarshal\<close>. For a value with an \<^verbatim>\<open>UnmarshalBSON\<close> method the library first
  copies the document out of the input and then calls the method on the copy; when it
  finds no document to copy it fails without calling the method, on the empty input
  with \<^verbatim>\<open>EOF\<close>. The copying is the parameter \<open>copy_document\<close>, with the empty input
  fixed to fail. On an error the function returns \<^verbatim>\<open>nil\<close> in place of the geometry.
\<close>

definition UnmarshalGeometry ::
  "(8 word list \<Rightarrow> error + 8 word list) \<Rightarrow> (8 word list \<Rightarrow> error + (string \<times> bson) list) \<Rightarrow>
     8 word list \<Rightarrow> error + Geometry" where
  "UnmarshalGeometry copy_document unmarshal data =
     (if length data = 0 then Inl AdapterError
      else case copy_document data of
             Inl err \<Rightarrow> Inl err
           | Inr buf \<Rightarrow>
               (case UnmarshalBSON unmarshal zero_Geometry buf of
                  (g, Some err) \<Rightarrow> Inl err
                | (g, None) \<Rightarrow> Inr g))"

subsection \<open>Encoding\<close>

text \<open>
  The struct \<^verbatim>\<open>geometry\<close> that fixes the order of the elements. Its two
  \<^verbatim>\<open>interface{}\<close> fields are \<open>None\<close> while nil; \<^verbatim>\<open>Coordinates\<close> can hold a payload of
  any of the four coordinate types.
\<close>

datatype payload =
    OfPoint Point
  | OfPointSet "Point list"
  | OfPathSet "Point list list"
  | OfPolygonSet "Point list list list"

record geometry =
  gType :: GeometryType
  gCoordinates :: "payload option"
  gGeometries :: "Geometry list option"

definition toPureGeometry :: "Geometry \<Rightarrow> geometry" where
  "toPureGeometry g =
     (let geo = \<lparr>gType = Type g, gCoordinates = None, gGeometries = None\<rparr> in
      if Type g = GeometryPoint then geo\<lparr>gCoordinates := Some (OfPoint (Point g))\<rparr>
      else if Type g = GeometryMultiPoint then
        geo\<lparr>gCoordinates := Some (OfPointSet (MultiPoint g))\<rparr>
      else if Type g = GeometryLineString then
        geo\<lparr>gCoordinates := Some (OfPointSet (LineString g))\<rparr>
      else if Type g = GeometryMultiLineString then
        geo\<lparr>gCoordinates := Some (OfPathSet (MultiLineString g))\<rparr>
      else if Type g = GeometryPolygon then
        geo\<lparr>gCoordinates := Some (OfPathSet (Polygon g))\<rparr>
      else if Type g = GeometryMultiPolygon then
        geo\<lparr>gCoordinates := Some (OfPolygonSet (MultiPolygon g))\<rparr>
      else if Type g = GeometryCollection then
        geo\<lparr>gGeometries := Some (Geometries g)\<rparr>
      else geo)"

text \<open>
  Modelled from the spec: the Document Adapter behind \<^verbatim>\<open>bson.Marshal\<close>, which is a
  library outside the package. A slice becomes a sequence of its elements in order and
  a \<^verbatim>\<open>float64\<close> a floating-point leaf; the nil slice becomes null, at every level.
\<close>

definition marshal_Point :: "Point \<Rightarrow> bson" where
  "marshal_Point p = (if p = [] then VNil else VArray (map VFloat64 p))"

definition marshal_PointSet :: "Point list \<Rightarrow> bson" where
  "marshal_PointSet ps = (if ps = [] then VNil else VArray (map marshal_Point ps))"

definition marshal_PathSet :: "Point list list \<Rightarrow> bson" where
  "marshal_PathSet pss = (if pss = [] then VNil else VArray (map marshal_PointSet pss))"

definition marshal_PolygonSet :: "Point list list list \<Rightarrow> bson" where
  "marshal_PolygonSet psss = (if psss = [] then VNil else VArray (map marshal_PathSet psss))"

fun marshal_payload :: "payload \<Rightarrow> bson" where
  "marshal_payload (OfPoint p) = marshal_Point p"
| "marshal_payload (OfPointSet ps) = marshal_PointSet ps"
| "marshal_payload (OfPathSet pss) = marshal_PathSet pss"
| "marshal_payload (OfPolygonSet psss) = marshal_PolygonSet psss"

lemma size_child: "c \<in> set gs \<Longrightarrow> size c < Suc (size_list size gs)"
  by (induction gs) auto

lemma toPureGeometry_children:
  "gGeometries (toPureGeometry g) = Some gs \<Longrightarrow> gs = Geometries g"
  by (simp add: toPureGeometry_def Let_def split: if_splits)

text \<open>
  Modelled from the spec: the encoding of the struct \<^verbatim>\<open>geometry\<close> by \<^verbatim>\<open>bson.Marshal\<close>,
  a library outside the package, which \<^verbatim>\<open>MarshalBSON\<close> calls on the result of
  \<^verbatim>\<open>toPureGeometry\<close>. The function stops at the document, which the library then
  writes as bytes. The fields come in the order of the struct under their \<^verbatim>\<open>bson\<close>
  keys; \<^verbatim>\<open>type\<close> is always written; \<^verbatim>\<open>coordinates\<close> and \<^verbatim>\<open>geometries\<close> carry
  \<^verbatim>\<open>omitempty\<close> and are left out when their interface is nil; an interface that
  holds a nil slice is not nil, and is written as null; a child of a collection is
  written through its own \<^verbatim>\<open>MarshalBSON\<close>.
\<close>

function MarshalBSON :: "Geometry \<Rightarrow> (string \<times> bson) list" where
  "MarshalBSON g =
     (let geo = toPureGeometry g in
      [(''type'', VString (gType geo))] @
      (case gCoordinates geo of
         None \<Rightarrow> []
       | Some c \<Rightarrow> [(''coordinates'', marshal_payload c)]) @
      (case gGeometries geo of
         None \<Rightarrow> []
       | Some gs \<Rightarrow>
           [(''geometries'',
             if gs = [] then VNil else VArray (map (\<lambda>c. VMap (MarshalBSON c)) gs))]))"
  by pat_completeness auto
termination
proof (relation "measure size")
  fix g geo gs c
  assume "geo = toPureGeometry g" and "gGeometries geo = Some gs" and "c \<in> set gs"
  then have "c \<in> set (Geometries g)"
    using toPureGeometry_children by blast
  then show "(c, g) \<in> measure size"
    by (cases g) (auto dest: size_child)
qed simp

subsection \<open>Variant predicates\<close>

definition IsPoint :: "Geometry \<Rightarrow> bool" where
  "IsPoint g = (Type g = GeometryPoint)"

definition IsMultiPoint :: "Geometry \<Rightarrow> bool" where
  "IsMultiPoint g = (Type g = GeometryMultiPoint)"

definition IsLineString :: "Geometry \<Rightarrow> bool" where
  "IsLineString g = (Type g = GeometryLineString)"

definition IsMultiLineString :: "Geometry \<Rightarrow> bool" where
  "IsMultiLineString g = (Type g = GeometryMultiLineString)"

definition IsPolygon :: "Geometry \<Rightarrow> bool" where
  "IsPolygon g = (Type g = GeometryPolygon)"

definition IsMultiPolygon :: "Geometry \<Rightarrow> bool" where
  "IsMultiPolygon g = (Type g = GeometryMultiPolygon)"

definition IsCollection :: "Geometry \<Rightarrow> bool" where
  "IsCollection g = (Type g = GeometryCollection)"

section \<open>Notions of the specification\<close>

text \<open>
  The numbers of a document: the floating-point leaves and the integer leaves of the
  three representations the type switch of \<^verbatim>\<open>decodePosition\<close> names, with the real
  number each of them stands for.
\<close>

definition is_number :: "bson \<Rightarrow> bool" where
  "is_number v =
     (case v of
        VFloat64 f \<Rightarrow> True
      | VInt f \<Rightarrow> True
      | VInt32 f \<Rightarrow> True
      | VInt64 f \<Rightarrow> True
      | _ \<Rightarrow> False)"

definition number_value :: "bson \<Rightarrow> real" where
  "number_value v =
     (case v of
        VFloat64 f \<Rightarrow> f
      | VInt f \<Rightarrow> real_of_int (sint f)
      | VInt32 f \<Rightarrow> real_of_int (sint f)
      | VInt64 f \<Rightarrow> real_of_int (sint f)
      | _ \<Rightarrow> 0)"







text \<open>The seven tags that \<^verbatim>\<open>decodeGeometry\<close> and \<^verbatim>\<open>toPureGeometry\<close> dispatch on.\<close>

definition recognized :: "GeometryType \<Rightarrow> bool" where
  "recognized t \<longleftrightarrow>
     t \<in> {GeometryPoint, GeometryMultiPoint, GeometryLineString, GeometryMultiLineString,
       GeometryPolygon, GeometryMultiPolygon, GeometryCollection}"

text \<open>The payload field of a tag, emptied; a tag outside the seven has none.\<close>

definition reset_payload :: "GeometryType \<Rightarrow> Geometry \<Rightarrow> Geometry" where
  "reset_payload t g =
     (if t = GeometryPoint then set_Point [] g
      else if t = GeometryMultiPoint then set_MultiPoint [] g
      else if t = GeometryLineString then set_LineString [] g
      else if t = GeometryMultiLineString then set_MultiLineString [] g
      else if t = GeometryPolygon then set_Polygon [] g
      else if t = GeometryMultiPolygon then set_MultiPolygon [] g
      else if t = GeometryCollection then set_Geometries [] g
      else g)"

text \<open>
  What the loop of \<^verbatim>\<open>decodeGeometries\<close> makes of one element \<open>v\<close> of the sequence
  \<open>data\<close>: the child decoded from a fresh geometry, the error of that decoding, or
  the error of the sequence when \<open>v\<close> is not a document.
\<close>

definition decode_child :: "bson \<Rightarrow> bson \<Rightarrow> error + Geometry" where
  "decode_child data v =
     (case v of
        VMap vmap \<Rightarrow>
          (case decodeGeometry zero_Geometry vmap of
             (g, Some err) \<Rightarrow> Inl err
           | (g, None) \<Rightarrow> Inr g)
      | _ \<Rightarrow> Inl (NotValidGeometries data))"










section \<open>Properties\<close>

declare decodeGeometry.simps [simp del] MarshalBSON.simps [simp del]

subsection \<open>Auxiliary facts\<close>

lemma decodePosition_loop_numbers:
  "list_all is_number coords \<Longrightarrow>
   decodePosition_loop coords result = Inr (result @ map number_value coords)"
  by (induction coords arbitrary: result)
     (auto simp: is_number_def number_value_def float64_def split: bson.splits)

lemma decodePosition_loop_find:
  "find (\<lambda>c. \<not> is_number c) coords = Some c \<Longrightarrow>
   decodePosition_loop coords result = Inl (NotValidCoordinate c)"
  by (induction coords arbitrary: result)
     (auto simp: is_number_def split: bson.splits if_splits)








lemma Type_set_Type: "Type (set_Type s g) = s"
  by (cases g) simp

lemma decodeGeometry_no_type:
  "map_of object ''type'' = None \<Longrightarrow> decodeGeometry g object = (g, Some TypeNotDefined)"
  by (simp add: decodeGeometry.simps)

lemma decodeGeometry_not_string:
  "map_of object ''type'' = Some t \<Longrightarrow> \<forall>s. t \<noteq> VString s \<Longrightarrow>
   decodeGeometry g object = (g, Some TypeNotString)"
  by (cases t) (simp_all add: decodeGeometry.simps)

lemma decodeGeometry_string:
  "map_of object ''type'' = Some (VString s) \<Longrightarrow>
   decodeGeometry g object =
     (if s = GeometryPoint then
        assign set_Point (set_Type s g) (decodePosition (index object ''coordinates''))
      else if s = GeometryMultiPoint then
        assign set_MultiPoint (set_Type s g) (decodePositionSet (index object ''coordinates''))
      else if s = GeometryLineString then
        assign set_LineString (set_Type s g) (decodePositionSet (index object ''coordinates''))
      else if s = GeometryMultiLineString then
        assign set_MultiLineString (set_Type s g) (decodePathSet (index object ''coordinates''))
      else if s = GeometryPolygon then
        assign set_Polygon (set_Type s g) (decodePathSet (index object ''coordinates''))
      else if s = GeometryMultiPolygon then
        assign set_MultiPolygon (set_Type s g) (decodePolygonSet (index object ''coordinates''))
      else if s = GeometryCollection then
        assign set_Geometries (set_Type s g) (decodeGeometries (index object ''geometries''))
      else (set_Type s g, None))"
  by (simp add: decodeGeometry.simps Let_def Type_set_Type)




subsection \<open>Round trip\<close>




subsection \<open>The kinds of the errors of the coordinate decoders\<close>

lemma decodePosition_loop_kind:
  "decodePosition_loop coords result = Inl e \<Longrightarrow> kind e = InvalidPosition"
  by (induction coords arbitrary: result) (auto split: bson.splits)

lemma decodePosition_kind: "decodePosition data = Inl e \<Longrightarrow> kind e = InvalidPosition"
  by (auto simp: decodePosition_def split: bson.splits dest: decodePosition_loop_kind)

lemma decodePositionSet_loop_kind:
  "decodePositionSet_loop points result = Inl e \<Longrightarrow> kind e = InvalidPosition"
  by (induction points arbitrary: result) (auto split: sum.splits dest: decodePosition_kind)

lemma decodePositionSet_kind:
  "decodePositionSet data = Inl e \<Longrightarrow> kind e \<in> {InvalidPosition, InvalidPositionSequence}"
  by (auto simp: decodePositionSet_def split: bson.splits dest: decodePositionSet_loop_kind)

lemma decodePathSet_loop_kind:
  "decodePathSet_loop sets result = Inl e \<Longrightarrow>
   kind e \<in> {InvalidPosition, InvalidPositionSequence}"
  by (induction sets arbitrary: result) (auto split: sum.splits dest: decodePositionSet_kind)

lemma decodePathSet_kind:
  "decodePathSet data = Inl e \<Longrightarrow>
   kind e \<in> {InvalidPosition, InvalidPositionSequence, InvalidPathSequence}"
  by (auto simp: decodePathSet_def split: bson.splits dest: decodePathSet_loop_kind)

lemma decodePolygonSet_loop_kind:
  "decodePolygonSet_loop polygons result = Inl e \<Longrightarrow>
   kind e \<in> {InvalidPosition, InvalidPositionSequence, InvalidPathSequence}"
  by (induction polygons arbitrary: result) (auto split: sum.splits dest: decodePathSet_kind)

lemma decodePolygonSet_kind:
  "decodePolygonSet data = Inl e \<Longrightarrow>
   kind e \<in> {InvalidPosition, InvalidPositionSequence, InvalidPathSequence,
     InvalidPolygonSequence}"
  by (auto simp: decodePolygonSet_def split: bson.splits dest: decodePolygonSet_loop_kind)

lemma snd_assign: "snd (assign upd g r) = (case r of Inl e \<Rightarrow> Some e | Inr v \<Rightarrow> None)"
  by (simp add: assign_def split: sum.splits)

subsection \<open>Numeric coercion\<close>

text \<open>
  C4. \<^verbatim>\<open>decodePosition\<close> accepts a sequence whose elements are all numbers, of the
  floating-point or of any of the integer representations, and returns their values as
  floating-point numbers in order; so two sequences of numbers with the same values
  decode to the same position. When some element is not a number, it fails with the
  error that reports the first such element.
\<close>

theorem decodePosition_numbers:
  "(list_all is_number coords \<longrightarrow>
      decodePosition (VArray coords) = Inr (map number_value coords)) \<and>
   (list_all is_number xs \<and> list_all is_number ys \<and>
      map number_value xs = map number_value ys \<longrightarrow>
      decodePosition (VArray xs) = decodePosition (VArray ys)) \<and>
   (find (\<lambda>c. \<not> is_number c) bad = Some c \<longrightarrow>
      decodePosition (VArray bad) = Inl (NotValidCoordinate c))"
  by (simp add: decodePosition_def decodePosition_loop_numbers decodePosition_loop_find)

theorem decodePosition_numbers_witness:
  "list_all is_number [VInt 1, VFloat64 2] \<and>
   decodePosition (VArray [VInt 1, VFloat64 2]) = Inr [1, 2] \<and>
   map number_value [VInt32 1, VInt64 2] = map number_value [VFloat64 1, VFloat64 2] \<and>
   decodePosition (VArray [VInt32 1, VInt64 2]) =
     decodePosition (VArray [VFloat64 1, VFloat64 2]) \<and>
   find (\<lambda>c. \<not> is_number c) [VFloat64 1, VString ''x'', VBool True] = Some (VString ''x'') \<and>
   decodePosition (VArray [VFloat64 1, VString ''x'', VBool True]) =
     Inl (NotValidCoordinate (VString ''x''))"
  using decodePosition_numbers [where coords = "[VInt 1, VFloat64 2]"
      and xs = "[VInt32 1, VInt64 2]" and ys = "[VFloat64 1, VFloat64 2]"
      and bad = "[VFloat64 1, VString ''x'', VBool True]" and c = "VString ''x''"]
  by (simp add: is_number_def number_value_def)

subsection \<open>Sequences of positions\<close>

lemma decodePositionSet_loop_all:
  "list_all (\<lambda>p. \<not> isl (decodePosition p)) points \<Longrightarrow>
   decodePositionSet_loop points result =
     Inr (result @ map (\<lambda>p. projr (decodePosition p)) points)"
  by (induction points arbitrary: result) (auto split: sum.splits)

lemma decodePositionSet_loop_find:
  "find (\<lambda>p. isl (decodePosition p)) points = Some p \<Longrightarrow>
   decodePositionSet_loop points result = Inl (projl (decodePosition p))"
  by (induction points arbitrary: result) (auto split: sum.splits if_splits)

lemma find_None_list_all: "find P xs = None \<longleftrightarrow> list_all (\<lambda>x. \<not> P x) xs"
  by (induction xs) auto

text \<open>
  C8, as the claim states it, fails: when an element of the sequence is not a position,
  the error of \<^verbatim>\<open>decodePositionSet\<close> is the error of that element, of the kind
  \<open>InvalidPosition\<close>, and not one of the kind \<open>InvalidPositionSequence\<close>.
\<close>

theorem decodePositionSet_kind_counterexample:
  "decodePosition (VFloat64 3) = Inl (NotValidPosition (VFloat64 3)) \<and>
   decodePositionSet (VArray [VArray [VFloat64 1, VFloat64 2], VFloat64 3]) =
     Inl (NotValidPosition (VFloat64 3)) \<and>
   kind (NotValidPosition (VFloat64 3)) \<noteq> InvalidPositionSequence"
  by (simp add: decodePositionSet_def decodePosition_def)

text \<open>
  C8, amended. On a sequence in which some element fails \<^verbatim>\<open>decodePosition\<close>,
  \<^verbatim>\<open>decodePositionSet\<close> fails with the error of the first such element, unchanged (an
  error of the kind \<open>InvalidPosition\<close>); on a sequence whose elements all decode it
  returns their positions in order; a value that is not a sequence gives the error of
  the kind \<open>InvalidPositionSequence\<close>; and it succeeds only on a sequence whose
  elements all decode.
\<close>

theorem decodePositionSet_first_failure:
  "(find (\<lambda>p. isl (decodePosition p)) points = Some p \<longrightarrow>
      decodePositionSet (VArray points) = Inl (projl (decodePosition p)) \<and>
      kind (projl (decodePosition p)) = InvalidPosition) \<and>
   (list_all (\<lambda>p. \<not> isl (decodePosition p)) ok \<longrightarrow>
      decodePositionSet (VArray ok) = Inr (map (\<lambda>p. projr (decodePosition p)) ok)) \<and>
   ((\<forall>vs. data \<noteq> VArray vs) \<longrightarrow> decodePositionSet data = Inl (NotValidPositionSet data)) \<and>
   (decodePositionSet data = Inr ps \<longrightarrow>
      (\<exists>vs. data = VArray vs \<and> list_all (\<lambda>p. \<not> isl (decodePosition p)) vs))"
proof (intro conjI impI)
  assume f: "find (\<lambda>p. isl (decodePosition p)) points = Some p"
  then show "decodePositionSet (VArray points) = Inl (projl (decodePosition p))"
    by (simp add: decodePositionSet_def decodePositionSet_loop_find)
  from f have "isl (decodePosition p)"
    by (auto simp: find_Some_iff)
  then show "kind (projl (decodePosition p)) = InvalidPosition"
    by (cases "decodePosition p") (auto dest: decodePosition_kind)
next
  assume "list_all (\<lambda>p. \<not> isl (decodePosition p)) ok"
  then show "decodePositionSet (VArray ok) = Inr (map (\<lambda>p. projr (decodePosition p)) ok)"
    by (simp add: decodePositionSet_def decodePositionSet_loop_all)
next
  assume "\<forall>vs. data \<noteq> VArray vs"
  then show "decodePositionSet data = Inl (NotValidPositionSet data)"
    by (cases data) (simp_all add: decodePositionSet_def)
next
  assume r: "decodePositionSet data = Inr ps"
  then obtain vs where d: "data = VArray vs"
    by (cases data) (simp_all add: decodePositionSet_def)
  have "find (\<lambda>p. isl (decodePosition p)) vs = None"
  proof (cases "find (\<lambda>p. isl (decodePosition p)) vs")
    case (Some p)
    then show ?thesis
      using r d by (simp add: decodePositionSet_def decodePositionSet_loop_find)
  qed simp
  with d show "\<exists>vs. data = VArray vs \<and> list_all (\<lambda>p. \<not> isl (decodePosition p)) vs"
    by (simp add: find_None_list_all)
qed

theorem decodePositionSet_first_failure_witness:
  "find (\<lambda>p. isl (decodePosition p)) [VArray [VFloat64 1], VFloat64 3, VString ''x''] =
     Some (VFloat64 3) \<and>
   decodePositionSet (VArray [VArray [VFloat64 1], VFloat64 3, VString ''x'']) =
     Inl (NotValidPosition (VFloat64 3)) \<and>
   list_all (\<lambda>p. \<not> isl (decodePosition p)) [VArray [VFloat64 1], VArray [VInt32 3]] \<and>
   decodePositionSet (VArray [VArray [VFloat64 1], VArray [VInt32 3]]) = Inr [[1], [3]] \<and>
   decodePositionSet (VString ''x'') = Inl (NotValidPositionSet (VString ''x''))"
  using decodePositionSet_first_failure [where points = "[VArray [VFloat64 1], VFloat64 3, VString ''x'']"
      and p = "VFloat64 3" and ok = "[VArray [VFloat64 1], VArray [VInt32 3]]"
      and data = "VString ''x''"]
    decodePositionSet_first_failure [where data = "VArray [VArray [VFloat64 1], VArray [VInt32 3]]"
      and ps = "[[1], [3]]"]
  by (simp add: decodePosition_def float64_def)

subsection \<open>The type tag\<close>

text \<open>
  C2, as the claim states it, fails in the direction from the error to the document: a
  collection whose child has no \<^verbatim>\<open>type\<close> fails with the child's error, so a document
  that does have a \<^verbatim>\<open>type\<close> key fails with the error of the kind \<open>MissingType\<close>.
\<close>

theorem type_errors_counterexample:
  "map_of [(''type'', VString ''GeometryCollection''), (''geometries'', VArray [VMap []])] ''type''
     = Some (VString ''GeometryCollection'') \<and>
   snd (decodeGeometry zero_Geometry
     [(''type'', VString ''GeometryCollection''), (''geometries'', VArray [VMap []])])
     = Some TypeNotDefined \<and>
   kind TypeNotDefined = MissingType"
  by (simp add: decodeGeometry.simps [of _ "[]"] decodeGeometry.simps [of _ "_ # _"]  GeometryType_defs index_def assign_def Type_set_Type)

text \<open>
  C2, amended. A document without a \<^verbatim>\<open>type\<close> key fails with the error of the kind
  \<open>MissingType\<close>, and one whose \<^verbatim>\<open>type\<close> is not a string with the error of the kind
  \<open>InvalidType\<close>, in both cases with the receiver untouched and whatever the rest of
  the document holds. Conversely, when decoding a document fails with an error of one
  of these two kinds, either the document has that defect itself, or its \<^verbatim>\<open>type\<close> is
  \<^verbatim>\<open>GeometryCollection\<close> and the error is the one \<^verbatim>\<open>decodeGeometries\<close> returned
  for its \<^verbatim>\<open>geometries\<close>.
\<close>

theorem type_errors:
  "(map_of object ''type'' = None \<longrightarrow> decodeGeometry g object = (g, Some TypeNotDefined)) \<and>
   (map_of object ''type'' = Some t \<and> (\<forall>s. t \<noteq> VString s) \<longrightarrow>
      decodeGeometry g object = (g, Some TypeNotString)) \<and>
   (snd (decodeGeometry g object) = Some e \<and> (kind e = MissingType \<or> kind e = InvalidType) \<longrightarrow>
      (map_of object ''type'' = None \<and> e = TypeNotDefined) \<or>
      (\<exists>t. map_of object ''type'' = Some t \<and> (\<forall>s. t \<noteq> VString s) \<and> e = TypeNotString) \<or>
      (map_of object ''type'' = Some (VString GeometryCollection) \<and>
       decodeGeometries (index object ''geometries'') = Inl e))"
proof (intro conjI impI)
  assume "map_of object ''type'' = None"
  then show "decodeGeometry g object = (g, Some TypeNotDefined)"
    by (rule decodeGeometry_no_type)
next
  assume "map_of object ''type'' = Some t \<and> (\<forall>s. t \<noteq> VString s)"
  then show "decodeGeometry g object = (g, Some TypeNotString)"
    by (simp add: decodeGeometry_not_string)
next
  assume a: "snd (decodeGeometry g object) = Some e \<and> (kind e = MissingType \<or> kind e = InvalidType)"
  show "(map_of object ''type'' = None \<and> e = TypeNotDefined) \<or>
      (\<exists>t. map_of object ''type'' = Some t \<and> (\<forall>s. t \<noteq> VString s) \<and> e = TypeNotString) \<or>
      (map_of object ''type'' = Some (VString GeometryCollection) \<and>
       decodeGeometries (index object ''geometries'') = Inl e)"
  proof (cases "map_of object ''type''")
    case None
    with a show ?thesis by (simp add: decodeGeometry_no_type)
  next
    case (Some t)
    show ?thesis
    proof (cases "\<exists>s. t = VString s")
      case False
      with a Some show ?thesis by (simp add: decodeGeometry_not_string)
    next
      case True
      then obtain s where t: "t = VString s" ..
      note dec = decodeGeometry_string [OF Some [unfolded t], of g]
      have k: "kind e \<notin> {InvalidPosition, InvalidPositionSequence, InvalidPathSequence,
          InvalidPolygonSequence}"
        using a by auto
      from a have "snd (decodeGeometry g object) = Some e" ..
      then show ?thesis
        unfolding dec using k Some t
        by (auto simp: snd_assign split: if_splits sum.splits
            dest: decodePosition_kind decodePositionSet_kind decodePathSet_kind
              decodePolygonSet_kind)
    qed
  qed
qed

theorem type_errors_witness:
  "map_of [(''coordinates'', VArray [VInt32 1, VInt32 2])] ''type'' = None \<and>
   decodeGeometry zero_Geometry [(''coordinates'', VArray [VInt32 1, VInt32 2])] =
     (zero_Geometry, Some TypeNotDefined) \<and>
   map_of [(''type'', VInt32 7), (''coordinates'', VArray [])] ''type'' = Some (VInt32 7) \<and>
   decodeGeometry zero_Geometry [(''type'', VInt32 7), (''coordinates'', VArray [])] =
     (zero_Geometry, Some TypeNotString) \<and>
   snd (decodeGeometry zero_Geometry
     [(''type'', VString ''GeometryCollection''), (''geometries'', VArray [VMap []])]) =
     Some TypeNotDefined \<and>
   decodeGeometries
     (index [(''type'', VString ''GeometryCollection''), (''geometries'', VArray [VMap []])]
        ''geometries'') = Inl TypeNotDefined"
  using type_errors [of "[(''coordinates'', VArray [VInt32 1, VInt32 2])]" zero_Geometry]
    type_errors [of "[(''type'', VInt32 7), (''coordinates'', VArray [])]" zero_Geometry "VInt32 7"]
    type_errors [of "[(''type'', VString ''GeometryCollection''), (''geometries'', VArray [VMap []])]"
      zero_Geometry _ TypeNotDefined]
  by (simp add: decodeGeometry.simps [of _ "[]"] decodeGeometry.simps [of _ "_ # _"]
      GeometryType_defs index_def assign_def Type_set_Type)

subsection \<open>Unrecognized tags\<close>

text \<open>
  C5. When the \<^verbatim>\<open>type\<close> of a document is a string outside the seven tags, decoding
  succeeds, stores the string as the tag and touches no payload field, whatever the
  document holds under \<^verbatim>\<open>coordinates\<close> or \<^verbatim>\<open>geometries\<close>; decoded into a fresh
  geometry, every payload field is empty.
\<close>

theorem unrecognized_type_passes:
  assumes "map_of object ''type'' = Some (VString s)" and "\<not> recognized s"
  shows "decodeGeometry g object = (set_Type s g, None) \<and>
    decodeGeometry zero_Geometry object = (Geometry s [] [] [] [] [] [] [], None)"
  using assms
  by (simp add: decodeGeometry_string recognized_def zero_Geometry_def)

theorem unrecognized_type_passes_witness:
  "map_of [(''type'', VString ''Circle''), (''coordinates'', VArray [VFloat64 1, VString ''x'']),
      (''geometries'', VBool True)] ''type'' = Some (VString ''Circle'') \<and>
   \<not> recognized ''Circle'' \<and>
   decodeGeometry zero_Geometry
     [(''type'', VString ''Circle''), (''coordinates'', VArray [VFloat64 1, VString ''x'']),
      (''geometries'', VBool True)] = (Geometry ''Circle'' [] [] [] [] [] [] [], None)"
  using unrecognized_type_passes [of "[(''type'', VString ''Circle''),
      (''coordinates'', VArray [VFloat64 1, VString ''x'']), (''geometries'', VBool True)]"
      "''Circle''" zero_Geometry]
  by (simp add: recognized_def GeometryType_defs zero_Geometry_def)

subsection \<open>A missing \<^verbatim>\<open>coordinates\<close> key\<close>

text \<open>
  C10. When the \<^verbatim>\<open>type\<close> of a document is one of the six tags that carry coordinates
  and the document has no \<^verbatim>\<open>coordinates\<close> key, decoding fails: the decoder of the tag
  receives the nil interface and returns its error for a value that is not a sequence
  (for a \<^verbatim>\<open>Point\<close>, the error of the kind \<open>InvalidPosition\<close>).
\<close>

theorem missing_coordinates_fails:
  assumes "map_of object ''type'' = Some (VString t)"
    and "map_of object ''coordinates'' = None"
  shows "(t = GeometryPoint \<longrightarrow>
       decodeGeometry g object = (set_Point [] (set_Type t g), Some (NotValidPosition VNil))) \<and>
    (t = GeometryMultiPoint \<longrightarrow>
       decodeGeometry g object =
         (set_MultiPoint [] (set_Type t g), Some (NotValidPositionSet VNil))) \<and>
    (t = GeometryLineString \<longrightarrow>
       decodeGeometry g object =
         (set_LineString [] (set_Type t g), Some (NotValidPositionSet VNil))) \<and>
    (t = GeometryMultiLineString \<longrightarrow>
       decodeGeometry g object =
         (set_MultiLineString [] (set_Type t g), Some (NotValidPath VNil))) \<and>
    (t = GeometryPolygon \<longrightarrow>
       decodeGeometry g object = (set_Polygon [] (set_Type t g), Some (NotValidPath VNil))) \<and>
    (t = GeometryMultiPolygon \<longrightarrow>
       decodeGeometry g object =
         (set_MultiPolygon [] (set_Type t g), Some (NotValidPolygon VNil)))"
proof -
  have "index object ''coordinates'' = VNil"
    using assms(2) by (simp add: index_def)
  then show ?thesis
    by (simp add: decodeGeometry_string [OF assms(1)] GeometryType_defs assign_def
        decodePosition_def decodePositionSet_def decodePathSet_def decodePolygonSet_def)
qed

theorem missing_coordinates_fails_witness:
  "map_of [(''type'', VString ''Point'')] ''coordinates'' = None \<and>
   snd (decodeGeometry zero_Geometry [(''type'', VString ''Point'')]) =
     Some (NotValidPosition VNil) \<and>
   kind (NotValidPosition VNil) = InvalidPosition \<and>
   snd (decodeGeometry zero_Geometry [(''type'', VString ''MultiPoint'')]) =
     Some (NotValidPositionSet VNil) \<and>
   snd (decodeGeometry zero_Geometry [(''type'', VString ''LineString'')]) =
     Some (NotValidPositionSet VNil) \<and>
   snd (decodeGeometry zero_Geometry [(''type'', VString ''MultiLineString'')]) =
     Some (NotValidPath VNil) \<and>
   snd (decodeGeometry zero_Geometry [(''type'', VString ''Polygon''), (''geometries'', VArray [])]) =
     Some (NotValidPath VNil) \<and>
   snd (decodeGeometry zero_Geometry [(''type'', VString ''MultiPolygon'')]) =
     Some (NotValidPolygon VNil)"
  using missing_coordinates_fails [of "[(''type'', VString ''Point'')]" "''Point''" zero_Geometry]
    missing_coordinates_fails [of "[(''type'', VString ''MultiPoint'')]" "''MultiPoint''"
      zero_Geometry]
    missing_coordinates_fails [of "[(''type'', VString ''LineString'')]" "''LineString''"
      zero_Geometry]
    missing_coordinates_fails [of "[(''type'', VString ''MultiLineString'')]"
      "''MultiLineString''" zero_Geometry]
    missing_coordinates_fails [of "[(''type'', VString ''Polygon''), (''geometries'', VArray [])]"
      "''Polygon''" zero_Geometry]
    missing_coordinates_fails [of "[(''type'', VString ''MultiPolygon'')]" "''MultiPolygon''"
      zero_Geometry]
  by (simp add: GeometryType_defs)

subsection \<open>Shape rejection\<close>






















subsection \<open>Collections\<close>

lemma decodeGeometries_loop_all:
  "list_all (\<lambda>v. \<not> isl (decode_child data v)) vs \<Longrightarrow>
   decodeGeometries_loop vs acc = Inr (acc @ map (\<lambda>v. projr (decode_child data v)) vs)"
  by (induction vs arbitrary: acc)
     (auto simp: decode_child_def split: bson.splits prod.splits option.splits)

lemma decodeGeometries_loop_find:
  "find (\<lambda>v. isl (decode_child data v)) vs = Some v \<Longrightarrow>
   (case v of
      VMap vmap \<Rightarrow> decodeGeometries_loop vs acc = Inl (projl (decode_child data v))
    | _ \<Rightarrow> \<exists>gs. decodeGeometries_loop vs acc = Inr (acc @ gs) \<and> length gs < length vs)"
proof (induction vs arbitrary: acc)
  case Nil
  then show ?case by simp
next
  case (Cons a vs)
  show ?case
  proof (cases "isl (decode_child data a)")
    case True
    with Cons.prems have "a = v" by simp
    with True show ?thesis
      by (cases v) (auto simp: decode_child_def split: prod.splits option.splits)
  next
    case False
    then obtain vmap g where a: "a = VMap vmap" "decodeGeometry zero_Geometry vmap = (g, None)"
      by (auto simp: decode_child_def split: bson.splits prod.splits option.splits)
    from False Cons.prems have f: "find (\<lambda>v. isl (decode_child data v)) vs = Some v"
      by simp
    show ?thesis
      using Cons.IH [OF f, of "acc @ [g]"] a
      by (cases v) auto
  qed
qed

text \<open>
  C6, as the claim states it, fails: when the decoding of a child fails,
  \<^verbatim>\<open>decodeGeometries\<close> returns the error of the child, which need not be of the kind
  \<open>InvalidGeometrySequence\<close>.
\<close>

theorem decodeGeometries_counterexample:
  "decodeGeometries (VArray [VMap []]) = Inl TypeNotDefined \<and>
   kind TypeNotDefined \<noteq> InvalidGeometrySequence"
  by (simp add: decodeGeometry.simps)

text \<open>
  C6, amended. \<^verbatim>\<open>decodeGeometries\<close> is all or nothing. On a value that is not a sequence
  it fails with the error of the kind \<open>InvalidGeometrySequence\<close>. On a sequence whose
  elements are all documents that decode, it returns the children, as many as the
  elements and in their order. Otherwise it fails, and returns no children: with the
  error of the kind \<open>InvalidGeometrySequence\<close> when the first element that is not a
  decodable document is not a document at all, and with the error of the child,
  unchanged, when that element is a document whose decoding fails. It succeeds in no
  other case.
\<close>

theorem decodeGeometries_all_or_nothing:
  "((\<forall>vs. data \<noteq> VArray vs) \<longrightarrow> decodeGeometries data = Inl (NotValidGeometries data)) \<and>
   (list_all (\<lambda>v. \<not> isl (decode_child (VArray ok) v)) ok \<longrightarrow>
      decodeGeometries (VArray ok) = Inr (map (\<lambda>v. projr (decode_child (VArray ok) v)) ok)) \<and>
   (find (\<lambda>v. isl (decode_child (VArray bad) v)) bad = Some v \<longrightarrow>
      decodeGeometries (VArray bad) = Inl (projl (decode_child (VArray bad) v))) \<and>
   (decodeGeometries data = Inr gs \<longrightarrow>
      (\<exists>vs. data = VArray vs \<and> length gs = length vs \<and>
         list_all (\<lambda>v. \<not> isl (decode_child data v)) vs))"
proof (intro conjI impI)
  assume "\<forall>vs. data \<noteq> VArray vs"
  then show "decodeGeometries data = Inl (NotValidGeometries data)"
    by (cases data) simp_all
next
  assume "list_all (\<lambda>v. \<not> isl (decode_child (VArray ok) v)) ok"
  then show "decodeGeometries (VArray ok) = Inr (map (\<lambda>v. projr (decode_child (VArray ok) v)) ok)"
    by (simp add: decodeGeometries_loop_all)
next
  assume f: "find (\<lambda>v. isl (decode_child (VArray bad) v)) bad = Some v"
  show "decodeGeometries (VArray bad) = Inl (projl (decode_child (VArray bad) v))"
    using decodeGeometries_loop_find [OF f, of "[]"]
    by (cases v) (auto simp: decode_child_def)
next
  assume r: "decodeGeometries data = Inr gs"
  then obtain vs where d: "data = VArray vs"
    by (cases data) simp_all
  have n: "find (\<lambda>v. isl (decode_child data v)) vs = None"
  proof (cases "find (\<lambda>v. isl (decode_child data v)) vs")
    case (Some v)
    then show ?thesis
      using decodeGeometries_loop_find [OF Some, of "[]"] r d
      by (cases v) (auto simp: decode_child_def)
  qed simp
  then have a: "list_all (\<lambda>v. \<not> isl (decode_child data v)) vs"
    by (simp add: find_None_list_all)
  with r d have "length gs = length vs"
    by (auto simp: decodeGeometries_loop_all)
  with a d show "\<exists>vs. data = VArray vs \<and> length gs = length vs \<and>
         list_all (\<lambda>v. \<not> isl (decode_child data v)) vs"
    by simp
qed

theorem decodeGeometries_all_or_nothing_witness:
  "decodeGeometries (VString ''x'') = Inl (NotValidGeometries (VString ''x'')) \<and>
   decodeGeometries
     (VArray [VMap [(''type'', VString ''Point''), (''coordinates'', VArray [VFloat64 1, VFloat64 2])],
        VMap [(''type'', VString ''LineString''), (''coordinates'', VArray [])]]) =
     Inr [NewPoint [1, 2], NewLineString []] \<and>
   decodeGeometries
     (VArray [VMap [(''type'', VString ''Point''), (''coordinates'', VArray [])], VInt32 5, VMap []]) =
     Inl (NotValidGeometries
       (VArray [VMap [(''type'', VString ''Point''), (''coordinates'', VArray [])], VInt32 5,
          VMap []])) \<and>
   decodeGeometries
     (VArray [VMap [(''type'', VString ''Point''), (''coordinates'', VArray [])], VMap [], VInt32 5]) =
     Inl TypeNotDefined"
  using decodeGeometries_all_or_nothing [where data = "VString ''x''"
      and ok = "[VMap [(''type'', VString ''Point''), (''coordinates'', VArray [VFloat64 1, VFloat64 2])],
        VMap [(''type'', VString ''LineString''), (''coordinates'', VArray [])]]"
      and bad = "[VMap [(''type'', VString ''Point''), (''coordinates'', VArray [])], VInt32 5, VMap []]"
      and v = "VInt32 5"]
    decodeGeometries_all_or_nothing [where
      bad = "[VMap [(''type'', VString ''Point''), (''coordinates'', VArray [])], VMap [], VInt32 5]"
      and v = "VMap []"
      and data = "VArray [VMap [(''type'', VString ''Point''), (''coordinates'', VArray [VFloat64 1, VFloat64 2])],
        VMap [(''type'', VString ''LineString''), (''coordinates'', VArray [])]]"
      and gs = "[NewPoint [1, 2], NewLineString []]"]
  by (simp add: decode_child_def decodeGeometry.simps GeometryType_defs Type_set_Type
      index_def assign_def decodePosition_def decodePositionSet_def zero_Geometry_def
      NewPoint_def NewLineString_def)

subsection \<open>The keys of an encoded document\<close>

text \<open>
  C7, as the claim states it, fails for a geometry whose tag is none of the seven (the
  zero value, or what decoding an unrecognized \<^verbatim>\<open>type\<close> returns): its document has the
  \<^verbatim>\<open>type\<close> key and no payload key.
\<close>

theorem MarshalBSON_unrecognized_counterexample:
  "MarshalBSON (Geometry ''Circle'' [] [] [] [] [] [] []) = [(''type'', VString ''Circle'')]"
  by (simp add: MarshalBSON.simps toPureGeometry_def GeometryType_defs)

text \<open>
  C7, amended. Encoding is a total function. The document of a geometry starts with
  \<^verbatim>\<open>type\<close>, holding the tag. For the six tags that carry coordinates it is followed by
  \<^verbatim>\<open>coordinates\<close> alone, holding the payload field of the tag; for
  \<^verbatim>\<open>GeometryCollection\<close> by \<^verbatim>\<open>geometries\<close> alone, holding the documents of the children
  in order; for any other tag by nothing. A key that is not used is absent; the key that
  is used is present also when its slice is nil, and then holds null.
\<close>

theorem MarshalBSON_document:
  "MarshalBSON g =
     (''type'', VString (Type g)) #
     (if Type g = GeometryPoint then [(''coordinates'', marshal_Point (Point g))]
      else if Type g = GeometryMultiPoint then [(''coordinates'', marshal_PointSet (MultiPoint g))]
      else if Type g = GeometryLineString then [(''coordinates'', marshal_PointSet (LineString g))]
      else if Type g = GeometryMultiLineString then
        [(''coordinates'', marshal_PathSet (MultiLineString g))]
      else if Type g = GeometryPolygon then [(''coordinates'', marshal_PathSet (Polygon g))]
      else if Type g = GeometryMultiPolygon then
        [(''coordinates'', marshal_PolygonSet (MultiPolygon g))]
      else if Type g = GeometryCollection then
        [(''geometries'',
          if Geometries g = [] then VNil
          else VArray (map (\<lambda>c. VMap (MarshalBSON c)) (Geometries g)))]
      else []) \<and>
   map fst (MarshalBSON g) =
     (if Type g \<in> {GeometryPoint, GeometryMultiPoint, GeometryLineString,
          GeometryMultiLineString, GeometryPolygon, GeometryMultiPolygon}
      then [''type'', ''coordinates'']
      else if Type g = GeometryCollection then [''type'', ''geometries'']
      else [''type''])"
  by (simp add: MarshalBSON.simps [of g] toPureGeometry_def GeometryType_defs)

theorem MarshalBSON_document_witness:
  "MarshalBSON (NewPoint [1, 2]) =
     [(''type'', VString ''Point''), (''coordinates'', VArray [VFloat64 1, VFloat64 2])] \<and>
   map fst (MarshalBSON (NewGeometryCollection [NewPoint [1, 2], NewMultiPoint [[1, 2], [3, 4]]])) =
     [''type'', ''geometries'']"
  using MarshalBSON_document [of "NewPoint [1, 2]"]
    MarshalBSON_document [of "NewGeometryCollection [NewPoint [1, 2], NewMultiPoint [[1, 2], [3, 4]]]"]
  by (simp add: NewPoint_def NewGeometryCollection_def NewMultiPoint_def zero_Geometry_def
      GeometryType_defs marshal_Point_def)

subsection \<open>The receiver after a failure\<close>

text \<open>
  C9, as the claim states it, fails: \<^verbatim>\<open>decodeGeometry\<close> stores the tag in the receiver
  before it decodes the payload, so a document with a good \<^verbatim>\<open>type\<close> and a bad payload
  leaves the receiver of \<^verbatim>\<open>UnmarshalBSON\<close> with the tag of the document.
\<close>

theorem decodeGeometry_partial_counterexample:
  "decodeGeometry zero_Geometry [(''type'', VString ''Point''), (''coordinates'', VString ''x'')] =
     (Geometry ''Point'' [] [] [] [] [] [] [], Some (NotValidPosition (VString ''x''))) \<and>
   Type (Geometry ''Point'' [] [] [] [] [] [] []) \<noteq> Type zero_Geometry"
  by (simp add: decodeGeometry.simps GeometryType_defs index_def assign_def decodePosition_def
      zero_Geometry_def)

lemma assign_failed: "snd (assign upd g r) = Some e \<Longrightarrow> fst (assign upd g r) = upd [] g"
  by (cases r) (simp_all add: assign_def)

lemma Type_reset_payload: "Type (reset_payload s (set_Type s g)) = s"
  by (cases g) (simp add: reset_payload_def)

lemma decodeGeometry_failed:
  assumes "map_of object ''type'' = Some (VString s)"
    and "snd (decodeGeometry g object) = Some e"
  shows "recognized s \<and> fst (decodeGeometry g object) = reset_payload s (set_Type s g)"
proof -
  note dec = decodeGeometry_string [OF assms(1), of g]
  have r: "recognized s"
  proof (rule ccontr)
    assume "\<not> recognized s"
    then have "decodeGeometry g object = (set_Type s g, None)"
      unfolding dec by (simp add: recognized_def)
    with assms(2) show False by simp
  qed
  then consider "s = GeometryPoint" | "s = GeometryMultiPoint" | "s = GeometryLineString"
    | "s = GeometryMultiLineString" | "s = GeometryPolygon" | "s = GeometryMultiPolygon"
    | "s = GeometryCollection"
    by (auto simp: recognized_def)
  then have "fst (decodeGeometry g object) = reset_payload s (set_Type s g)"
  proof cases
    case 1
    with assms(2) show ?thesis
      unfolding dec by (simp add: reset_payload_def assign_failed)
  next
    case 2
    with assms(2) show ?thesis
      unfolding dec by (simp add: reset_payload_def GeometryType_defs assign_failed)
  next
    case 3
    with assms(2) show ?thesis
      unfolding dec by (simp add: reset_payload_def GeometryType_defs assign_failed)
  next
    case 4
    with assms(2) show ?thesis
      unfolding dec by (simp add: reset_payload_def GeometryType_defs assign_failed)
  next
    case 5
    with assms(2) show ?thesis
      unfolding dec by (simp add: reset_payload_def GeometryType_defs assign_failed)
  next
    case 6
    with assms(2) show ?thesis
      unfolding dec by (simp add: reset_payload_def GeometryType_defs assign_failed)
  next
    case 7
    with assms(2) show ?thesis
      unfolding dec by (simp add: reset_payload_def GeometryType_defs assign_failed)
  qed
  with r show ?thesis ..
qed

lemma decodeGeometry_untagged:
  assumes "\<forall>s. map_of object ''type'' \<noteq> Some (VString s)"
  shows "decodeGeometry g object = (g, Some TypeNotDefined) \<or>
    decodeGeometry g object = (g, Some TypeNotString)"
proof (cases "map_of object ''type''")
  case None
  then show ?thesis by (simp add: decodeGeometry_no_type)
next
  case (Some t)
  with assms have "\<forall>s. t \<noteq> VString s" by simp
  with Some show ?thesis by (simp add: decodeGeometry_not_string)
qed

text \<open>
  C9, amended. \<^verbatim>\<open>decodeGeometry\<close> and \<^verbatim>\<open>UnmarshalBSON\<close> work on the receiver of the
  caller in place. When the document has a string under \<^verbatim>\<open>type\<close> and decoding fails,
  the tag is one of the seven and the receiver is left with the tag of the document and
  the payload field of that tag emptied, all other fields as they were. When the
  document has no string under \<^verbatim>\<open>type\<close>, decoding fails and the receiver is untouched.
  \<^verbatim>\<open>UnmarshalBSON\<close> on a non-empty input is \<^verbatim>\<open>decodeGeometry\<close> on the parsed document,
  or the error of the parser with the receiver untouched; on the empty input it returns
  no error and leaves the receiver untouched. \<^verbatim>\<open>UnmarshalGeometry\<close> returns an error, and
  with it no geometry, exactly when the input is empty, the library finds no document in
  it, or \<^verbatim>\<open>UnmarshalBSON\<close> on a fresh geometry fails; it returns a geometry exactly when
  \<^verbatim>\<open>UnmarshalBSON\<close> on a fresh geometry succeeds, and then that geometry.
\<close>

theorem failed_decode_state:
  "(map_of object ''type'' = Some (VString s) \<and> snd (decodeGeometry g object) = Some e \<longrightarrow>
      recognized s \<and>
      fst (decodeGeometry g object) = reset_payload s (set_Type s g) \<and>
      Type (fst (decodeGeometry g object)) = s) \<and>
   ((\<forall>s. map_of object ''type'' \<noteq> Some (VString s)) \<longrightarrow>
      decodeGeometry g object = (g, Some TypeNotDefined) \<or>
      decodeGeometry g object = (g, Some TypeNotString)) \<and>
   (data \<noteq> [] \<and> unmarshal data = Inr object \<longrightarrow>
      UnmarshalBSON unmarshal g data = decodeGeometry g object) \<and>
   (data \<noteq> [] \<and> unmarshal data = Inl err \<longrightarrow>
      UnmarshalBSON unmarshal g data = (g, Some err)) \<and>
   UnmarshalBSON unmarshal g [] = (g, None) \<and>
   (UnmarshalGeometry copy_document unmarshal data = Inl e \<longleftrightarrow>
      data = [] \<and> e = AdapterError \<or>
      data \<noteq> [] \<and>
        (copy_document data = Inl e \<or>
         (\<exists>buf. copy_document data = Inr buf \<and>
            snd (UnmarshalBSON unmarshal zero_Geometry buf) = Some e))) \<and>
   (UnmarshalGeometry copy_document unmarshal data = Inr g' \<longleftrightarrow>
      data \<noteq> [] \<and>
        (\<exists>buf. copy_document data = Inr buf \<and>
           UnmarshalBSON unmarshal zero_Geometry buf = (g', None)))"
proof (intro conjI impI)
  assume a: "map_of object ''type'' = Some (VString s) \<and> snd (decodeGeometry g object) = Some e"
  then have f: "recognized s \<and> fst (decodeGeometry g object) = reset_payload s (set_Type s g)"
    by (intro decodeGeometry_failed) simp_all
  then show "recognized s" and "fst (decodeGeometry g object) = reset_payload s (set_Type s g)"
    by simp_all
  from f show "Type (fst (decodeGeometry g object)) = s"
    by (simp add: Type_reset_payload)
next
  assume "\<forall>s. map_of object ''type'' \<noteq> Some (VString s)"
  then show "decodeGeometry g object = (g, Some TypeNotDefined) \<or>
      decodeGeometry g object = (g, Some TypeNotString)"
    by (rule decodeGeometry_untagged)
next
  assume "data \<noteq> [] \<and> unmarshal data = Inr object"
  then show "UnmarshalBSON unmarshal g data = decodeGeometry g object"
    by (simp add: UnmarshalBSON_def)
next
  assume "data \<noteq> [] \<and> unmarshal data = Inl err"
  then show "UnmarshalBSON unmarshal g data = (g, Some err)"
    by (simp add: UnmarshalBSON_def)
next
  show "UnmarshalBSON unmarshal g [] = (g, None)"
    by (simp add: UnmarshalBSON_def)
next
  show "UnmarshalGeometry copy_document unmarshal data = Inl e \<longleftrightarrow>
      data = [] \<and> e = AdapterError \<or>
      data \<noteq> [] \<and>
        (copy_document data = Inl e \<or>
         (\<exists>buf. copy_document data = Inr buf \<and>
            snd (UnmarshalBSON unmarshal zero_Geometry buf) = Some e))"
  proof (cases "data = []")
    case True
    then show ?thesis by (auto simp: UnmarshalGeometry_def)
  next
    case False
    show ?thesis
    proof (cases "copy_document data")
      case (Inl err)
      with False show ?thesis by (auto simp: UnmarshalGeometry_def)
    next
      case (Inr buf)
      with False show ?thesis
        by (cases "UnmarshalBSON unmarshal zero_Geometry buf")
           (auto simp: UnmarshalGeometry_def split: option.splits)
    qed
  qed
next
  show "UnmarshalGeometry copy_document unmarshal data = Inr g' \<longleftrightarrow>
      data \<noteq> [] \<and>
        (\<exists>buf. copy_document data = Inr buf \<and>
           UnmarshalBSON unmarshal zero_Geometry buf = (g', None))"
  proof (cases "data = []")
    case True
    then show ?thesis by (simp add: UnmarshalGeometry_def)
  next
    case False
    show ?thesis
    proof (cases "copy_document data")
      case (Inl err)
      with False show ?thesis by (simp add: UnmarshalGeometry_def)
    next
      case (Inr buf)
      with False show ?thesis
        by (cases "UnmarshalBSON unmarshal zero_Geometry buf")
           (auto simp: UnmarshalGeometry_def split: option.splits)
    qed
  qed
qed

theorem failed_decode_state_witness:
  "map_of [(''type'', VString ''Point''), (''coordinates'', VString ''x'')] ''type'' =
     Some (VString ''Point'') \<and>
   decodeGeometry (NewLineString [[1, 2]])
     [(''type'', VString ''Point''), (''coordinates'', VString ''x'')] =
     (Geometry ''Point'' [] [[1, 2]] [] [] [] [] [], Some (NotValidPosition (VString ''x''))) \<and>
   UnmarshalBSON (\<lambda>data. Inr [(''type'', VString ''Point''), (''coordinates'', VString ''x'')])
     (NewLineString [[1, 2]]) [1] =
     (Geometry ''Point'' [] [[1, 2]] [] [] [] [] [], Some (NotValidPosition (VString ''x''))) \<and>
   decodeGeometry (NewLineString [[1, 2]]) [(''coordinates'', VArray [])] =
     (NewLineString [[1, 2]], Some TypeNotDefined) \<and>
   UnmarshalBSON (\<lambda>data. Inl AdapterError) (NewLineString [[1, 2]]) [1] =
     (NewLineString [[1, 2]], Some AdapterError) \<and>
   UnmarshalGeometry Inr
     (\<lambda>data. Inr [(''type'', VString ''Point''), (''coordinates'', VString ''x'')]) [1] =
     Inl (NotValidPosition (VString ''x'')) \<and>
   UnmarshalGeometry Inr
     (\<lambda>data. Inr [(''type'', VString ''Point''), (''coordinates'', VString ''x'')]) [] =
     Inl AdapterError \<and>
   UnmarshalGeometry Inr
     (\<lambda>data. Inr [(''type'', VString ''Point''), (''coordinates'', VArray [VFloat64 1, VFloat64 2])])
     [1] = Inr (NewPoint [1, 2])"
  using failed_decode_state [where g = "NewLineString [[1, 2]]"
      and object = "[(''type'', VString ''Point''), (''coordinates'', VString ''x'')]"
      and s = "''Point''" and e = "NotValidPosition (VString ''x'')"
      and unmarshal = "\<lambda>data. Inr [(''type'', VString ''Point''), (''coordinates'', VString ''x'')]"
      and data = "[1]" and copy_document = Inr]
    failed_decode_state [where g = "NewLineString [[1, 2]]"
      and object = "[(''coordinates'', VArray [])]"
      and unmarshal = "\<lambda>data. Inl AdapterError" and err = AdapterError
      and data = "[1]" and copy_document = Inr]
    failed_decode_state [where
      unmarshal = "\<lambda>data. Inr [(''type'', VString ''Point''), (''coordinates'', VString ''x'')]"
      and data = "[]" and copy_document = Inr and e = AdapterError]
    failed_decode_state [where
      unmarshal = "\<lambda>data. Inr [(''type'', VString ''Point''),
        (''coordinates'', VArray [VFloat64 1, VFloat64 2])]"
      and data = "[1]" and copy_document = Inr and g' = "NewPoint [1, 2]"]
  by (simp add: decodeGeometry.simps GeometryType_defs index_def assign_def decodePosition_def
      zero_Geometry_def NewLineString_def NewPoint_def UnmarshalGeometry_def UnmarshalBSON_def)

end
